theory Spec2Isabelle
  imports Complex_Main
begin

section \<open>The lead qualification engine, \<open>qualifier_engine.py\<close>\<close>

text \<open>
  A shallow embedding of the qualification engine. Python strings are modelled as
  \<open>string\<close>; the model is exact for ASCII text (\<open>lower\<close>, the word boundary of
  \<open>re\<close> and \<open>len\<close> are those of ASCII). Values that come out of JSON documents (the
  caches, the configuration, the oracle's answers) are values of the datatype \<open>json\<close>,
  since the engine passes them on without checking their type. Exceptions are values of
  \<open>pyerr\<close>. Real time (\<open>time.sleep\<close>, the rate-limit window, timestamps) is not
  modelled.
\<close>

subsection \<open>Python strings\<close>

definition dquote :: char where
  "dquote = CHR 0x22"

definition squote :: char where
  "squote = CHR 0x27"

definition backslash :: char where
  "backslash = CHR 0x5C"

definition newline :: char where
  "newline = CHR 0x0A"

text \<open>\<open>str.isspace\<close> on ASCII, also the class \<open>\s\<close> of \<open>re\<close>.\<close>

definition is_space :: "char \<Rightarrow> bool" where
  "is_space c = (let n = (of_char c :: nat) in (9 \<le> n \<and> n \<le> 13) \<or> (28 \<le> n \<and> n \<le> 32))"

definition is_digit :: "char \<Rightarrow> bool" where
  "is_digit c = (let n = (of_char c :: nat) in 48 \<le> n \<and> n \<le> 57)"

definition is_lower_az :: "char \<Rightarrow> bool" where
  "is_lower_az c = (let n = (of_char c :: nat) in 97 \<le> n \<and> n \<le> 122)"

definition is_upper_az :: "char \<Rightarrow> bool" where
  "is_upper_az c = (let n = (of_char c :: nat) in 65 \<le> n \<and> n \<le> 90)"

text \<open>The class \<open>\w\<close> of \<open>re\<close> on ASCII.\<close>

definition is_word :: "char \<Rightarrow> bool" where
  "is_word c = (is_lower_az c \<or> is_upper_az c \<or> is_digit c \<or> c = CHR ''_'')"

definition lower_char :: "char \<Rightarrow> char" where
  "lower_char c = (if is_upper_az c then char_of (of_char c + (32::nat)) else c)"

definition lower :: "string \<Rightarrow> string" where
  "lower s = map lower_char s"

definition strip :: "string \<Rightarrow> string" where
  "strip s = rev (dropWhile is_space (rev (dropWhile is_space s)))"

fun starts_with :: "string \<Rightarrow> string \<Rightarrow> bool" where
  "starts_with [] s = True"
| "starts_with (k # ks) [] = False"
| "starts_with (k # ks) (c # cs) = (k = c \<and> starts_with ks cs)"

text \<open>\<open>contains k t\<close> is Python's \<open>k in t\<close> on strings.\<close>

fun contains :: "string \<Rightarrow> string \<Rightarrow> bool" where
  "contains k [] = (k = [])"
| "contains k (c # cs) = (starts_with k (c # cs) \<or> contains k cs)"

text \<open>
  \<open>s.replace(old, new)\<close> for a non-empty \<open>old\<close>: the occurrences are replaced from
  left to right, without overlap. The counter is the number of characters of the current
  occurrence still to be skipped.
\<close>

fun replace_go :: "string \<Rightarrow> string \<Rightarrow> nat \<Rightarrow> string \<Rightarrow> string" where
  "replace_go old new k [] = []"
| "replace_go old new (Suc k) (c # cs) = replace_go old new k cs"
| "replace_go old new 0 (c # cs) =
     (if starts_with old (c # cs) then new @ replace_go old new (length old - 1) cs
      else c # replace_go old new 0 cs)"

definition replace :: "string \<Rightarrow> string \<Rightarrow> string \<Rightarrow> string" where
  "replace old new s = replace_go old new 0 s"

fun digits_of :: "nat \<Rightarrow> nat \<Rightarrow> string" where
  "digits_of 0 n = []"
| "digits_of (Suc f) n =
     (if n < 10 then [char_of (48 + n)] else digits_of f (n div 10) @ [char_of (48 + n mod 10)])"

text \<open>\<open>str(n)\<close> for an integer; a number has at most n + 1 digits.\<close>

definition str_int :: "int \<Rightarrow> string" where
  "str_int i = (if i < 0 then CHR ''-'' # digits_of (Suc (nat (- i))) (nat (- i))
                else digits_of (Suc (nat i)) (nat i))"

subsection \<open>Python values and exceptions\<close>

datatype pyerr = JSONDecodeError | RecursionError | TypeError | KeyError | AttributeError

text \<open>
  A JSON value as \<open>json.loads\<close> returns it. A float is kept as the literal it was read
  from; a dict is an association list in insertion order, with distinct keys.
\<close>

datatype json =
    JNull
  | JBool bool
  | JInt int
  | JFloat string
  | JString string
  | JArray "json list"
  | JObject "(string \<times> json) list"

type_synonym dict = "(string \<times> json) list"

definition dict_get :: "dict \<Rightarrow> string \<Rightarrow> json option" where
  "dict_get d k = map_of d k"

definition dict_has :: "dict \<Rightarrow> string \<Rightarrow> bool" where
  "dict_has d k = (map_of d k \<noteq> None)"

text \<open>\<open>d[k] = v\<close>: an existing key keeps its place.\<close>

fun dict_set :: "dict \<Rightarrow> string \<Rightarrow> json \<Rightarrow> dict" where
  "dict_set [] k v = [(k, v)]"
| "dict_set ((k', v') # d) k v = (if k' = k then (k, v) # d else (k', v') # dict_set d k v)"

definition dict_keys :: "dict \<Rightarrow> string list" where
  "dict_keys d = map fst d"

text \<open>
  Whether a float literal denotes zero: the mantissa is zero, or the value is at most
  \<open>2 ^ -1075\<close>, half of the smallest subnormal, and rounds to zero.
\<close>

fun nat_of_digits :: "nat \<Rightarrow> string \<Rightarrow> nat" where
  "nat_of_digits acc [] = acc"
| "nat_of_digits acc (c # cs) = nat_of_digits (acc * 10 + (of_char c - 48)) cs"

definition float_is_zero :: "string \<Rightarrow> bool" where
  "float_is_zero lit =
     (if \<not> (\<exists>c \<in> set lit. is_digit c) then False
      else
        let body = (if starts_with ''-'' lit then tl lit else lit);
            mant = takeWhile (\<lambda>c. c \<noteq> CHR ''e'' \<and> c \<noteq> CHR ''E'') body;
            expo = drop (Suc (length mant)) body;
            ipart = takeWhile (\<lambda>c. c \<noteq> CHR ''.'') mant;
            fpart = drop (Suc (length ipart)) mant;
            m = nat_of_digits 0 (ipart @ fpart);
            e = (case expo of
                   [] \<Rightarrow> 0
                 | c # cs \<Rightarrow> if c = CHR ''-'' then - int (nat_of_digits 0 cs)
                             else if c = CHR ''+'' then int (nat_of_digits 0 cs)
                             else int (nat_of_digits 0 (c # cs)));
            k = e - int (length fpart)
        in m = 0 \<or> (k < 0 \<and> int m * 2 ^ 1075 \<le> 10 ^ nat (- k)))"

text \<open>Python's truth value of a JSON value.\<close>

fun truthy :: "json \<Rightarrow> bool" where
  "truthy JNull = False"
| "truthy (JBool b) = b"
| "truthy (JInt i) = (i \<noteq> 0)"
| "truthy (JFloat lit) = (\<not> float_is_zero lit)"
| "truthy (JString s) = (s \<noteq> [])"
| "truthy (JArray xs) = (xs \<noteq> [])"
| "truthy (JObject d) = (d \<noteq> [])"

text \<open>\<open>k in v\<close> for a string \<open>k\<close>: a key of a dict, an element of a list, a substring of a
  string; any other value is not iterable.\<close>

fun py_in :: "string \<Rightarrow> json \<Rightarrow> pyerr + bool" where
  "py_in k (JObject d) = Inr (dict_has d k)"
| "py_in k (JArray xs) = Inr (JString k \<in> set xs)"
| "py_in k (JString s) = Inr (contains k s)"
| "py_in k v = Inl TypeError"

text \<open>\<open>v[k]\<close> for a string \<open>k\<close>.\<close>

fun py_getitem :: "json \<Rightarrow> string \<Rightarrow> pyerr + json" where
  "py_getitem (JObject d) k = (case dict_get d k of None \<Rightarrow> Inl KeyError | Some v \<Rightarrow> Inr v)"
| "py_getitem v k = Inl TypeError"

subsection \<open>\<open>json.loads\<close>\<close>

text \<open>
  The decoder of the standard library, in its default (strict) mode. The fuel bounds the
  number of nested calls; running out of it is the \<open>RecursionError\<close> of the library.
\<close>

definition is_json_ws :: "char \<Rightarrow> bool" where
  "is_json_ws c = (c = CHR '' '' \<or> c = CHR 0x09 \<or> c = CHR 0x0A \<or> c = CHR 0x0D)"

definition skip_ws :: "string \<Rightarrow> string" where
  "skip_ws s = dropWhile is_json_ws s"

definition hex_val :: "char \<Rightarrow> nat option" where
  "hex_val c =
     (let n = (of_char c :: nat) in
      if 48 \<le> n \<and> n \<le> 57 then Some (n - 48)
      else if 97 \<le> n \<and> n \<le> 102 then Some (n - 87)
      else if 65 \<le> n \<and> n \<le> 70 then Some (n - 55)
      else None)"

definition hex4 :: "string \<Rightarrow> nat option" where
  "hex4 s =
     (case map hex_val s of
        [Some a, Some b, Some c, Some d] \<Rightarrow> Some (((a * 16 + b) * 16 + c) * 16 + d)
      | _ \<Rightarrow> None)"

text \<open>The UTF-8 bytes of a code point.\<close>

definition utf8 :: "nat \<Rightarrow> string" where
  "utf8 n =
     (if n < 0x80 then [char_of n]
      else if n < 0x800 then [char_of (0xC0 + n div 64), char_of (0x80 + n mod 64)]
      else if n < 0x10000 then
        [char_of (0xE0 + n div 4096), char_of (0x80 + n div 64 mod 64), char_of (0x80 + n mod 64)]
      else
        [char_of (0xF0 + n div 262144), char_of (0x80 + n div 4096 mod 64),
         char_of (0x80 + n div 64 mod 64), char_of (0x80 + n mod 64)])"

definition unescape :: "char \<Rightarrow> char option" where
  "unescape e =
     (if e = dquote then Some dquote
      else if e = backslash then Some backslash
      else if e = CHR ''/'' then Some (CHR ''/'')
      else if e = CHR ''b'' then Some (CHR 0x08)
      else if e = CHR ''f'' then Some (CHR 0x0C)
      else if e = CHR ''n'' then Some (CHR 0x0A)
      else if e = CHR ''r'' then Some (CHR 0x0D)
      else if e = CHR ''t'' then Some (CHR 0x09)
      else None)"

text \<open>
  \<open>scanstring\<close>, after the opening quote. The counter is the number of characters of the
  current escape still to be skipped.
\<close>

fun scanstring :: "nat \<Rightarrow> string \<Rightarrow> string \<Rightarrow> pyerr + (string \<times> string)" where
  "scanstring k acc [] = Inl JSONDecodeError"
| "scanstring (Suc k) acc (c # cs) = scanstring k acc cs"
| "scanstring 0 acc (c # cs) =
     (if c = dquote then Inr (acc, cs)
      else if c = backslash then
        (case cs of
           [] \<Rightarrow> Inl JSONDecodeError
         | e # es \<Rightarrow>
             if e = CHR ''u'' then
               (case hex4 (take 4 es) of
                  None \<Rightarrow> Inl JSONDecodeError
                | Some u \<Rightarrow>
                    if 0xD800 \<le> u \<and> u \<le> 0xDBFF \<and> starts_with [backslash, CHR ''u''] (drop 4 es)
                    then
                      (case hex4 (take 4 (drop 6 es)) of
                         None \<Rightarrow> Inl JSONDecodeError
                       | Some u2 \<Rightarrow>
                           if 0xDC00 \<le> u2 \<and> u2 \<le> 0xDFFF
                           then scanstring 11 (acc @ utf8 (0x10000 + (u - 0xD800) * 1024 + (u2 - 0xDC00))) cs
                           else scanstring 5 (acc @ utf8 u) cs)
                    else scanstring 5 (acc @ utf8 u) cs)
             else
               (case unescape e of
                  None \<Rightarrow> Inl JSONDecodeError
                | Some ch \<Rightarrow> scanstring 1 (acc @ [ch]) cs))
      else if (of_char c :: nat) < 0x20 then Inl JSONDecodeError
      else scanstring 0 (acc @ [c]) cs)"

text \<open>
  The number pattern \<open>(-?(?:0|[1-9][0-9]*))(\.[0-9]+)?([eE][-+]?[0-9]+)?\<close>, matched at
  the start of the text: the literal and the rest, and whether it has a fraction or an
  exponent.
\<close>

definition match_number :: "string \<Rightarrow> (string \<times> bool \<times> string) option" where
  "match_number s =
     (let (sign, s1) = (if starts_with ''-'' s then (''-'', tl s) else ('''', s)) in
      case s1 of
        [] \<Rightarrow> None
      | d # ds \<Rightarrow>
          if \<not> is_digit d then None
          else
            let ipart = (if d = CHR ''0'' then [d] else d # takeWhile is_digit ds);
                s2 = drop (length ipart) s1;
                fdigits = (case s2 of
                             [] \<Rightarrow> []
                           | p # ps \<Rightarrow> if p = CHR ''.'' then takeWhile is_digit ps else []);
                frac = (if fdigits = [] then [] else CHR ''.'' # fdigits);
                s3 = drop (length frac) s2;
                expo = (case s3 of
                          [] \<Rightarrow> []
                        | e # es \<Rightarrow>
                            if e = CHR ''e'' \<or> e = CHR ''E'' then
                              (let sg = (case es of
                                           [] \<Rightarrow> []
                                         | g # gs \<Rightarrow> if g = CHR ''-'' \<or> g = CHR ''+'' then [g] else []);
                                   edigits = takeWhile is_digit (drop (length sg) es)
                               in if edigits = [] then [] else e # sg @ edigits)
                            else []);
                s4 = drop (length expo) s3
            in Some (sign @ ipart @ frac @ expo, frac \<noteq> [] \<or> expo \<noteq> [], s4))"

definition int_of_literal :: "string \<Rightarrow> int" where
  "int_of_literal lit =
     (if starts_with ''-'' lit then - int (nat_of_digits 0 (tl lit)) else int (nat_of_digits 0 lit))"

text \<open>
  \<open>scan_once\<close>, with the loops of \<open>JSONObject\<close> and \<open>JSONArray\<close>. \<open>None\<close> from
  \<open>scan_once\<close> is its \<open>StopIteration\<close>.
\<close>

fun scan_once :: "nat \<Rightarrow> string \<Rightarrow> pyerr + (json \<times> string) option"
  and json_members :: "nat \<Rightarrow> dict \<Rightarrow> string \<Rightarrow> pyerr + (json \<times> string)"
  and json_elements :: "nat \<Rightarrow> json list \<Rightarrow> string \<Rightarrow> pyerr + (json \<times> string)"
where
  "scan_once 0 s = Inl RecursionError"
| "scan_once (Suc f) [] = Inr None"
| "scan_once (Suc f) (c # cs) =
     (if c = dquote then
        (case scanstring 0 [] cs of Inl e \<Rightarrow> Inl e | Inr (str, rest) \<Rightarrow> Inr (Some (JString str, rest)))
      else if c = CHR ''{'' then
        (case skip_ws cs of
           [] \<Rightarrow> Inl JSONDecodeError
         | n # ns \<Rightarrow>
             if n = CHR ''}'' then Inr (Some (JObject [], ns))
             else if n = dquote then
               (case json_members f [] ns of Inl e \<Rightarrow> Inl e | Inr r \<Rightarrow> Inr (Some r))
             else Inl JSONDecodeError)
      else if c = CHR ''['' then
        (case skip_ws cs of
           [] \<Rightarrow> Inl JSONDecodeError
         | n # ns \<Rightarrow>
             if n = CHR '']'' then Inr (Some (JArray [], ns))
             else (case json_elements f [] (n # ns) of Inl e \<Rightarrow> Inl e | Inr r \<Rightarrow> Inr (Some r)))
      else if starts_with ''null'' (c # cs) then Inr (Some (JNull, drop 4 (c # cs)))
      else if starts_with ''true'' (c # cs) then Inr (Some (JBool True, drop 4 (c # cs)))
      else if starts_with ''false'' (c # cs) then Inr (Some (JBool False, drop 5 (c # cs)))
      else
        (case match_number (c # cs) of
           Some (lit, is_float, rest) \<Rightarrow>
             Inr (Some (if is_float then JFloat lit else JInt (int_of_literal lit), rest))
         | None \<Rightarrow>
             if starts_with ''NaN'' (c # cs) then Inr (Some (JFloat ''NaN'', drop 3 (c # cs)))
             else if starts_with ''Infinity'' (c # cs) then Inr (Some (JFloat ''Infinity'', drop 8 (c # cs)))
             else if starts_with ''-Infinity'' (c # cs) then Inr (Some (JFloat ''-Infinity'', drop 9 (c # cs)))
             else Inr None))"
| "json_members 0 pairs s = Inl RecursionError"
| "json_members (Suc f) pairs s =
     (case scanstring 0 [] s of
        Inl e \<Rightarrow> Inl e
      | Inr (key, s1) \<Rightarrow>
          (case skip_ws s1 of
             [] \<Rightarrow> Inl JSONDecodeError
           | c # s2 \<Rightarrow>
               if c \<noteq> CHR '':'' then Inl JSONDecodeError
               else
                 (case scan_once f (skip_ws s2) of
                    Inl e \<Rightarrow> Inl e
                  | Inr None \<Rightarrow> Inl JSONDecodeError
                  | Inr (Some (v, s3)) \<Rightarrow>
                      (case skip_ws s3 of
                         [] \<Rightarrow> Inl JSONDecodeError
                       | n # s4 \<Rightarrow>
                           if n = CHR ''}'' then Inr (JObject (dict_set pairs key v), s4)
                           else if n \<noteq> CHR '','' then Inl JSONDecodeError
                           else
                             (case skip_ws s4 of
                                [] \<Rightarrow> Inl JSONDecodeError
                              | q # s5 \<Rightarrow>
                                  if q \<noteq> dquote then Inl JSONDecodeError
                                  else json_members f (dict_set pairs key v) s5)))))"
| "json_elements 0 vals s = Inl RecursionError"
| "json_elements (Suc f) vals s =
     (case scan_once f s of
        Inl e \<Rightarrow> Inl e
      | Inr None \<Rightarrow> Inl JSONDecodeError
      | Inr (Some (v, s1)) \<Rightarrow>
          (case skip_ws s1 of
             [] \<Rightarrow> Inl JSONDecodeError
           | n # s2 \<Rightarrow>
               if n = CHR '']'' then Inr (JArray (vals @ [v]), s2)
               else if n \<noteq> CHR '','' then Inl JSONDecodeError
               else json_elements f (vals @ [v]) (skip_ws s2)))"

text \<open>\<open>json.loads\<close>: one value, white space around it, and nothing else.\<close>

definition json_loads :: "string \<Rightarrow> pyerr + json" where
  "json_loads s =
     (case scan_once (Suc (length s)) (skip_ws s) of
        Inl e \<Rightarrow> Inl e
      | Inr None \<Rightarrow> Inl JSONDecodeError
      | Inr (Some (v, rest)) \<Rightarrow> if skip_ws rest = [] then Inr v else Inl JSONDecodeError)"

subsection \<open>JSON repair helper\<close>

text \<open>
  \<open>re.search(r"\{[\s\S]*\}", text)\<close>: from the first opening brace to the last closing
  brace after it.
\<close>

definition search_braces :: "string \<Rightarrow> string option" where
  "search_braces text =
     (let from_open = dropWhile (\<lambda>c. c \<noteq> CHR ''{'') text;
          upto_close = rev (dropWhile (\<lambda>c. c \<noteq> CHR ''}'') (rev from_open))
      in if from_open = [] \<or> upto_close = [] then None else Some upto_close)"

definition repair_json :: "string option \<Rightarrow> json option" where
  "repair_json text =
     (case text of
        None \<Rightarrow> None
      | Some t \<Rightarrow>
          if t = [] then None
          else
            (case json_loads t of
               Inr v \<Rightarrow> Some v
             | Inl e \<Rightarrow>
                 (case (case search_braces t of
                          None \<Rightarrow> None
                        | Some m \<Rightarrow> (case json_loads m of Inr v \<Rightarrow> Some v | Inl e \<Rightarrow> None)) of
                    Some v \<Rightarrow> Some v
                  | None \<Rightarrow>
                      (let fixed = strip (replace '', ]'' '']'' (replace '',}'' ''}''
                                     (replace [newline] '' '' (replace [squote] [dquote] t))))
                       in case json_loads fixed of Inr v \<Rightarrow> Some v | Inl e \<Rightarrow> None))))"


subsection \<open>Helper: load/save json\<close>

text \<open>
  A file holds a text, or the text that \<open>json.dumps(obj, indent=2)\<close> wrote, which is
  kept as the value it encodes (\<open>json.loads\<close> reads that value back). Writing a file
  is assumed to succeed.
\<close>

datatype content = Text string | Dumped json

type_synonym fs = "string \<rightharpoonup> content"

fun read_json :: "content \<Rightarrow> pyerr + json" where
  "read_json (Text s) = json_loads s"
| "read_json (Dumped v) = Inr v"

text \<open>\<open>load_json\<close> catches every exception of its body, so it always returns.\<close>

definition load_json :: "fs \<Rightarrow> string \<Rightarrow> pyerr + json" where
  "load_json fs path =
     (case fs path of
        Some f \<Rightarrow> (case read_json f of Inr v \<Rightarrow> Inr v | Inl e \<Rightarrow> Inr (JObject []))
      | None \<Rightarrow> Inr (JObject []))"

definition save_json :: "fs \<Rightarrow> string \<Rightarrow> json \<Rightarrow> fs" where
  "save_json fs path obj = fs(path \<mapsto> Dumped obj)"

subsection \<open>Config loader\<close>

definition config_path :: "string \<Rightarrow> string" where
  "config_path name = ''config/'' @ name @ ''.json''"

definition load_config :: "fs \<Rightarrow> string \<Rightarrow> json \<Rightarrow> json \<times> fs" where
  "load_config fs name dflt =
     (let p = config_path name in
      if fs p = None then (dflt, save_json fs p dflt)
      else (case load_json fs p of Inr v \<Rightarrow> (v, fs) | Inl e \<Rightarrow> (dflt, fs)))"

definition pair2 :: "string \<Rightarrow> string \<Rightarrow> json" where
  "pair2 a b = JArray [JString a, JString b]"

definition DEFAULT_SERVICE_MAPPING :: dict where
  "DEFAULT_SERVICE_MAPPING =
     [(''animation'', pair2 ''Animation'' ''Art''),
      (''animator'', pair2 ''Animation'' ''Art''),
      (''vfx'', pair2 ''VFX'' ''Art''),
      (''technical artist'', pair2 ''Technical Art'' ''Art''),
      (''technical animator'', pair2 ''Technical Animation'' ''Art''),
      (''engineer'', pair2 ''Programming'' ''Co-Dev''),
      (''programmer'', pair2 ''Programming'' ''Co-Dev''),
      (''engine programmer'', pair2 ''Programming'' ''Co-Dev''),
      (''tools'', pair2 ''Programming Tools'' ''Co-Dev''),
      (''producer'', pair2 ''Game Production'' ''Full''),
      (''level designer'', pair2 ''Game Production'' ''Full''),
      (''design'', pair2 ''Game Development'' ''Full''),
      (''ui'', pair2 ''UI/UX'' ''Art''),
      (''ux'', pair2 ''UI/UX'' ''Art''),
      (''render'', pair2 ''Rendering'' ''Co-Dev''),
      (''rig'', pair2 ''Rigging'' ''Art'')]"

definition DEFAULT_REGION_KEYS :: "string list" where
  "DEFAULT_REGION_KEYS =
     [''united states'', ''canada'', ''france'', ''uk'', ''germany'', ''japan'', ''china'',
      ''finland'', ''sweden'', ''poland'', ''australia'', ''singapore'', ''india'']"

definition DEFAULT_TRUSTED_GAME_COMPANIES :: "string list" where
  "DEFAULT_TRUSTED_GAME_COMPANIES =
     [''ubisoft'', ''epic games'', ''riot games'', ''cd projekt red'', ''bethesda'', ''activision'',
      ''blizzard'', ''respawn'', ''naughty dog'', ''take-two'', ''square enix'', ''nintendo'',
      ''playstation'', ''scopely'', ''keywords studios'', ''gameloft'', ''supercell'',
      ''behaviour interactive'', ''dices'', ''insomniac'', ''rockstar'', ''ea'', ''sony'', ''konami'',
      ''remedy'']"

definition DEFAULT_FORCED_NON_GAMING :: "string list" where
  "DEFAULT_FORCED_NON_GAMING =
     [''linkedin'', ''tcs'', ''infosys'', ''deloitte'', ''bosch'', ''walmart'', ''cognizant'',
      ''accenture'', ''capgemini'', ''hcl'']"

definition stats3 :: "string \<Rightarrow> string \<Rightarrow> string \<Rightarrow> json" where
  "stats3 h e r = JObject [(''hq_country'', JString h), (''employees'', JString e), (''revenue'', JString r)]"

definition DEFAULT_TRUSTED_STATS :: dict where
  "DEFAULT_TRUSTED_STATS =
     [(''epic games'', stats3 ''United States'' ''>20000'' ''>1B''),
      (''ubisoft'', stats3 ''France'' ''>20000'' ''>1B''),
      (''riot games'', stats3 ''United States'' ''5000-20000'' ''>1B''),
      (''ea'', stats3 ''United States'' ''>20000'' ''>1B''),
      (''cd projekt red'', stats3 ''Poland'' ''5000-20000'' ''500M-1B'')]"

text \<open>
  The module's configuration after import: the rule tables, the ICP rules and the oracle
  client. The weights and the threshold are integers, as the defaults are. The client is
  absent without a credential; otherwise it maps the number of requests made so far and
  a prompt to the content of the answer, or to \<open>None\<close> when the request raises.
\<close>

record weights =
  w_employees :: int
  w_revenue :: int
  w_region :: int
  w_service :: int
  w_industry :: int

record config =
  SERVICE_MAPPING :: dict
  forced_non_gaming :: "string list"
  trusted_game_companies :: "string list"
  GOOD_REGIONS :: "string list"
  WEIGHTS :: weights
  SCORE_THRESHOLD :: int
  TRUSTED_STATS :: dict
  client :: "(nat \<Rightarrow> string \<Rightarrow> string option) option"

definition DEFAULT_WEIGHTS :: weights where
  "DEFAULT_WEIGHTS =
     \<lparr>w_employees = 25, w_revenue = 25, w_region = 20, w_service = 15, w_industry = 15\<rparr>"

definition default_config :: "(nat \<Rightarrow> string \<Rightarrow> string option) option \<Rightarrow> config" where
  "default_config cl =
     \<lparr>SERVICE_MAPPING = DEFAULT_SERVICE_MAPPING,
      forced_non_gaming = DEFAULT_FORCED_NON_GAMING,
      trusted_game_companies = DEFAULT_TRUSTED_GAME_COMPANIES,
      GOOD_REGIONS = map lower DEFAULT_REGION_KEYS,
      WEIGHTS = DEFAULT_WEIGHTS,
      SCORE_THRESHOLD = 75,
      TRUSTED_STATS = DEFAULT_TRUSTED_STATS,
      client = cl\<rparr>"

subsection \<open>The engine's state\<close>

text \<open>
  The three caches, the files written, and the prompts sent to the oracle, oldest
  first. \<open>calls\<close> is a ghost field: it records each call of the service classifier, the
  company enricher and the industry detector.
\<close>

datatype call = ClassifyService string | GetCompanyInfo string | DetectIndustry string string

record state =
  classify_cache :: dict
  company_cache :: dict
  industry_cache :: dict
  files :: fs
  sent :: "string list"
  calls :: "call list"

definition COMPANY_CACHE_FILE :: string where
  "COMPANY_CACHE_FILE = ''cache/company_cache.json''"

definition INDUSTRY_CACHE_FILE :: string where
  "INDUSTRY_CACHE_FILE = ''cache/industry_cache.json''"

definition CLASSIFY_CACHE_FILE :: string where
  "CLASSIFY_CACHE_FILE = ''cache/classify_cache.json''"

subsection \<open>Groq / LLM safe wrapper\<close>

text \<open>The loop over the attempts; the counter is the number of attempts left.\<close>

fun groq_attempts ::
  "(nat \<Rightarrow> string \<Rightarrow> string option) \<Rightarrow> nat \<Rightarrow> string \<Rightarrow> state \<Rightarrow> string option \<times> state" where
  "groq_attempts svc 0 prompt s = (None, s)"
| "groq_attempts svc (Suc k) prompt s =
     (let s' = s\<lparr>sent := sent s @ [prompt]\<rparr> in
      case svc (length (sent s)) prompt of
        Some content \<Rightarrow> (Some (strip content), s')
      | None \<Rightarrow> groq_attempts svc k prompt s')"

definition rate_limited_groq :: "config \<Rightarrow> string \<Rightarrow> state \<Rightarrow> string option \<times> state" where
  "rate_limited_groq cfg prompt s =
     (case client cfg of
        None \<Rightarrow> (None, s)
      | Some svc \<Rightarrow> groq_attempts svc 4 prompt s)"

subsection \<open>Normalizers and rules\<close>

definition level_words :: "string list" where
  "level_words =
     [''senior'', ''sr'', ''lead'', ''principal'', ''ii'', ''iii'', ''iv'', ''jr'', ''junior'', ''mid'',
      ''intern'', ''internship'']"

text \<open>
  The alternation \<open>(senior|sr|...)\b\<close> at the start of the text: the length of the first
  alternative that occurs there and ends at a word boundary.
\<close>

definition match_level :: "string \<Rightarrow> nat option" where
  "match_level s =
     (case filter (\<lambda>w. starts_with w s \<and> (case drop (length w) s of [] \<Rightarrow> True | c # cs \<Rightarrow> \<not> is_word c))
             level_words of
        [] \<Rightarrow> None
      | w # ws \<Rightarrow> Some (length w))"

text \<open>
  \<open>re.sub(r"\b(senior|sr|...)\b", "", t)\<close>. The flag says whether the character before
  is a word character; the counter is the number of characters of the current match
  still to be dropped.
\<close>

fun sub_levels :: "bool \<Rightarrow> nat \<Rightarrow> string \<Rightarrow> string" where
  "sub_levels prev k [] = []"
| "sub_levels prev (Suc k) (c # cs) = sub_levels (is_word c) k cs"
| "sub_levels prev 0 (c # cs) =
     (if prev then c # sub_levels (is_word c) 0 cs
      else
        (case match_level (c # cs) of
           Some n \<Rightarrow> sub_levels (is_word c) (n - 1) cs
         | None \<Rightarrow> c # sub_levels (is_word c) 0 cs))"

text \<open>\<open>re.sub(r"[^a-z0-9 ]", " ", t)\<close>.\<close>

definition sub_non_alnum :: "string \<Rightarrow> string" where
  "sub_non_alnum t = map (\<lambda>c. if is_lower_az c \<or> is_digit c \<or> c = CHR '' '' then c else CHR '' '') t"

text \<open>\<open>re.sub(r"\s+", " ", t)\<close>; the flag says whether a run of white space is being read.\<close>

fun collapse_ws :: "bool \<Rightarrow> string \<Rightarrow> string" where
  "collapse_ws run [] = []"
| "collapse_ws run (c # cs) =
     (if is_space c then (if run then collapse_ws True cs else CHR '' '' # collapse_ws True cs)
      else c # collapse_ws False cs)"

definition normalize_title :: "string \<Rightarrow> string" where
  "normalize_title title =
     (if title = [] then []
      else strip (collapse_ws False (sub_non_alnum (sub_levels False 0 (lower title)))))"

definition game_keywords :: "string list" where
  "game_keywords =
     [''game'', ''unreal'', ''unity'', ''gameplay'', ''designer'', ''producer'', ''3d'', ''2d'', ''artist'',
      ''ui'', ''ux'', ''vfx'', ''fx'', ''animator'', ''render'', ''graphics'', ''engine'', ''engineer'',
      ''tools'', ''rig'', ''rigging'', ''technical art'', ''lighting'', ''animation'', ''pipeline'',
      ''concept'', ''level'', ''narrative'', ''technical animator'', ''technical artist'']"

definition is_game_role :: "string \<Rightarrow> bool" where
  "is_game_role title = (let t = normalize_title title in list_ex (\<lambda>k. contains k t) game_keywords)"

definition service_dict :: "json \<Rightarrow> json \<Rightarrow> json" where
  "service_dict d b = JObject [(''detailed_service'', d), (''service_bucket'', b)]"

text \<open>
  The value of a mapping key as the rule returns it: a list of at least two elements or
  a dict; any other value is passed over.
\<close>

fun rule_value :: "json \<Rightarrow> json option" where
  "rule_value (JArray (a # b # rest)) = Some (service_dict a b)"
| "rule_value (JObject d) =
     Some (service_dict
            (case dict_get d ''detailed_service'' of Some v \<Rightarrow> v | None \<Rightarrow> JString ''Unknown'')
            (case dict_get d ''service_bucket'' of Some v \<Rightarrow> v | None \<Rightarrow> JString ''None''))"
| "rule_value v = None"

text \<open>The values that \<open>rule_value\<close> is meant to accept, stated on their shape.\<close>

definition usable_value :: "json \<Rightarrow> bool" where
  "usable_value v = (case v of JArray xs \<Rightarrow> 2 \<le> length xs | JObject d \<Rightarrow> True | _ \<Rightarrow> False)"

text \<open>The loop over the sorted keys; every key is a key of the mapping.\<close>

fun rule_scan :: "dict \<Rightarrow> string \<Rightarrow> string list \<Rightarrow> json option" where
  "rule_scan m t [] = None"
| "rule_scan m t (key # keys) =
     (if contains key t then
        (case dict_get m key of
           None \<Rightarrow> rule_scan m t keys
         | Some val \<Rightarrow> (case rule_value val of Some r \<Rightarrow> Some r | None \<Rightarrow> rule_scan m t keys))
      else rule_scan m t keys)"

definition classify_service_rule :: "config \<Rightarrow> string \<Rightarrow> json option" where
  "classify_service_rule cfg title =
     rule_scan (SERVICE_MAPPING cfg) (normalize_title title)
       (sort_key (\<lambda>x. - int (length x)) (dict_keys (SERVICE_MAPPING cfg)))"

subsection \<open>Caching wrappers\<close>

definition classify_prompt :: "string \<Rightarrow> string" where
  "classify_prompt title =
     [newline] @ ''Classify the job title into a JSON with keys:'' @ [newline]
     @ [dquote] @ ''detailed_service'' @ [dquote] @ '' and '' @ [dquote] @ ''service_bucket'' @ [dquote]
     @ '' (Art / Co-Dev / Full / None).'' @ [newline]
     @ ''Job Title: '' @ [dquote] @ title @ [dquote] @ [newline]"

text \<open>\<open>parsed and k1 in parsed and k2 in parsed and ...\<close>\<close>

fun has_keys :: "json option \<Rightarrow> string list \<Rightarrow> pyerr + bool" where
  "has_keys None ks = Inr False"
| "has_keys (Some v) [] = Inr (truthy v)"
| "has_keys (Some v) (k # ks) =
     (if \<not> truthy v then Inr False
      else (case py_in k v of
              Inl e \<Rightarrow> Inl e
            | Inr b \<Rightarrow> if b then has_keys (Some v) ks else Inr False))"

definition classify_service :: "config \<Rightarrow> string \<Rightarrow> state \<Rightarrow> (pyerr + json) \<times> state" where
  "classify_service cfg title s0 =
     (let s = s0\<lparr>calls := calls s0 @ [ClassifyService title]\<rparr>;
          key = normalize_title title
      in case dict_get (classify_cache s) key of
           Some v \<Rightarrow> (Inr v, s)
         | None \<Rightarrow>
             (case classify_service_rule cfg title of
                Some rule \<Rightarrow>
                  (let c = dict_set (classify_cache s) key rule in
                   (Inr rule,
                    s\<lparr>classify_cache := c, files := save_json (files s) CLASSIFY_CACHE_FILE (JObject c)\<rparr>))
              | None \<Rightarrow>
                  (let (out, s1) = rate_limited_groq cfg (classify_prompt title) s;
                       parsed = repair_json out
                   in case has_keys parsed [''detailed_service'', ''service_bucket''] of
                        Inl e \<Rightarrow> (Inl e, s1)
                      | Inr ok \<Rightarrow>
                          (let v = (if ok then the parsed
                                    else service_dict (JString ''Unknown'') (JString ''None''));
                               c = dict_set (classify_cache s1) key v
                           in (Inr v,
                               s1\<lparr>classify_cache := c,
                                   files := save_json (files s1) CLASSIFY_CACHE_FILE (JObject c)\<rparr>)))))"

definition company_prompt :: "string \<Rightarrow> string" where
  "company_prompt company =
     [newline] @ ''Estimate HQ country, employee range, and revenue range for the company.'' @ [newline]
     @ ''Employees must be one of: <10, 10-50, 50-500, 500-5000, 5000-20000, >20000'' @ [newline]
     @ ''Revenue must be one of: <5M, 5M-50M, 50M-500M, 500M-1B, >1B'' @ [newline]
     @ ''Return STRICT JSON with keys: hq_country, employees, revenue'' @ [newline]
     @ ''Company: '' @ [dquote] @ company @ [dquote] @ [newline]"

definition get_company_info :: "config \<Rightarrow> string \<Rightarrow> state \<Rightarrow> (pyerr + json) \<times> state" where
  "get_company_info cfg company s0 =
     (let s = s0\<lparr>calls := calls s0 @ [GetCompanyInfo company]\<rparr>;
          key = strip (lower company)
      in case dict_get (TRUSTED_STATS cfg) key of
           Some v \<Rightarrow> (Inr v, s)
         | None \<Rightarrow>
             (case dict_get (company_cache s) key of
                Some v \<Rightarrow> (Inr v, s)
              | None \<Rightarrow>
                  (let (out, s1) = rate_limited_groq cfg (company_prompt company) s;
                       parsed = repair_json out
                   in case has_keys parsed [''hq_country'', ''employees'', ''revenue''] of
                        Inl e \<Rightarrow> (Inl e, s1)
                      | Inr ok \<Rightarrow>
                          (let v = (if ok then the parsed
                                    else stats3 ''Unknown'' ''Unknown'' ''Unknown'');
                               c = dict_set (company_cache s1) key v
                           in (Inr v,
                               s1\<lparr>company_cache := c,
                                   files := save_json (files s1) COMPANY_CACHE_FILE (JObject c)\<rparr>)))))"

definition industry_key :: "string \<Rightarrow> string \<Rightarrow> string" where
  "industry_key company title = strip (lower company) @ ''||'' @ normalize_title title"

definition name_tokens :: "string list" where
  "name_tokens =
     [''games'', ''studio'', ''interactive'', ''entertainment'', ''gamedev'', ''game'', ''play'', ''mobile'']"

definition industry_prompt :: "string \<Rightarrow> string" where
  "industry_prompt company =
     ''Does the company '' @ [squote] @ company @ [squote]
     @ '' operate in game development / publishing or interactive entertainment? Answer YES or NO.''"

definition put_industry :: "string \<Rightarrow> bool \<Rightarrow> state \<Rightarrow> state" where
  "put_industry key b s =
     (let c = dict_set (industry_cache s) key (JBool b) in
      s\<lparr>industry_cache := c, files := save_json (files s) INDUSTRY_CACHE_FILE (JObject c)\<rparr>)"

definition detect_industry :: "config \<Rightarrow> string \<Rightarrow> string \<Rightarrow> state \<Rightarrow> json \<times> state" where
  "detect_industry cfg company title s0 =
     (let s = s0\<lparr>calls := calls s0 @ [DetectIndustry company title]\<rparr>;
          key = industry_key company title
      in case dict_get (industry_cache s) key of
           Some v \<Rightarrow> (v, s)
         | None \<Rightarrow>
             (let company_lower = strip (lower company) in
              if company_lower \<in> set (forced_non_gaming cfg) then (JBool False, put_industry key False s)
              else if list_ex (\<lambda>name. contains name company_lower) (remdups (trusted_game_companies cfg))
              then (JBool True, put_industry key True s)
              else if list_ex (\<lambda>k. contains k company_lower) name_tokens
              then (JBool True, put_industry key True s)
              else
                (let (out, s1) = rate_limited_groq cfg (industry_prompt company) s;
                     b = (case out of None \<Rightarrow> False | Some t \<Rightarrow> t \<noteq> [] \<and> contains ''yes'' (lower t))
                 in (JBool b, put_industry key b s1))))"

subsection \<open>Scoring functions\<close>

text \<open>
  A score is a float in the code. With integer weights it is the float nearest to a
  number with two decimals, which is modelled by that rational number: comparing it with
  an integer threshold and taking its integer part give the same results.
\<close>

definition score_employees :: "json \<Rightarrow> int" where
  "score_employees emp_range =
     (if emp_range \<in> set [JString ''50-500'', JString ''500-5000''] then 60
      else if emp_range \<in> set [JString ''5000-20000'', JString ''>20000''] then 100
      else 0)"

definition score_revenue :: "json \<Rightarrow> int" where
  "score_revenue rev_range =
     (if rev_range \<in> set [JString ''50M-500M''] then 60
      else if rev_range \<in> set [JString ''500M-1B'', JString ''>1B''] then 100
      else 0)"

text \<open>\<open>v.lower()\<close>: only a string has the method.\<close>

fun py_lower :: "json \<Rightarrow> pyerr + string" where
  "py_lower (JString h) = Inr (lower h)"
| "py_lower v = Inl AttributeError"

definition score_region :: "config \<Rightarrow> json \<Rightarrow> pyerr + int" where
  "score_region cfg hq_country =
     (if \<not> truthy hq_country then Inr 0
      else (case py_lower hq_country of
              Inl e \<Rightarrow> Inl e
            | Inr l \<Rightarrow> Inr (if list_ex (\<lambda>r. contains r l) (GOOD_REGIONS cfg) then 100 else 0)))"

definition score_service :: "json \<Rightarrow> int" where
  "score_service bucket =
     (if bucket \<in> set [JString ''Art'', JString ''Co-Dev'', JString ''Full''] then 100 else 0)"

definition score_industry :: "json \<Rightarrow> int" where
  "score_industry ind_ok = (if truthy ind_ok then 100 else 0)"

text \<open>\<open>round(x, 2)\<close>\<close>

definition round2 :: "rat \<Rightarrow> rat" where
  "round2 x = of_int (round (x * 100)) / 100"

definition weighted_score :: "config \<Rightarrow> json \<Rightarrow> json \<Rightarrow> json \<Rightarrow> json \<Rightarrow> json \<Rightarrow> pyerr + rat" where
  "weighted_score cfg emp revn hq bucket industry_ok =
     (let e = score_employees emp;
          r = score_revenue revn
      in case score_region cfg hq of
           Inl err \<Rightarrow> Inl err
         | Inr reg \<Rightarrow>
             (let s = score_service bucket;
                  i = score_industry industry_ok;
                  w = WEIGHTS cfg;
                  tot = of_int (e * w_employees w + r * w_revenue w + reg * w_region w
                                  + s * w_service w + i * w_industry w) / 100
              in Inr (round2 tot)))"

fun join :: "string \<Rightarrow> string list \<Rightarrow> string" where
  "join sep [] = []"
| "join sep [x] = x"
| "join sep (x # y # ys) = x @ sep @ join sep (y # ys)"

record legacy_verdict =
  decision :: string
  reason :: string
  confidence :: string

record verdict = legacy_verdict +
  score :: rat

text \<open>The region criterion of the legacy gate, \<open>any(r in (hq or "").lower() for r in GOOD_REGIONS)\<close>.\<close>

definition legacy_region :: "config \<Rightarrow> json \<Rightarrow> pyerr + bool" where
  "legacy_region cfg hq =
     (case (if truthy hq then py_lower hq else Inr []) of
        Inl e \<Rightarrow> Inl e
      | Inr l \<Rightarrow> Inr (list_ex (\<lambda>r. contains r l) (GOOD_REGIONS cfg)))"

definition legacy_qualify ::
  "config \<Rightarrow> string \<Rightarrow> json \<Rightarrow> json \<Rightarrow> json \<Rightarrow> json \<Rightarrow> json \<Rightarrow> json \<Rightarrow> pyerr + legacy_verdict" where
  "legacy_qualify cfg company bucket detailed hq emp revn industry_pass =
     (let emp_ok = (emp \<in> set [JString ''50-500'', JString ''500-5000'', JString ''5000-20000'', JString ''>20000'']);
          rev_ok = (revn \<in> set [JString ''50M-500M'', JString ''500M-1B'', JString ''>1B''])
      in case legacy_region cfg hq of
           Inl e \<Rightarrow> Inl e
         | Inr region_ok \<Rightarrow>
             (let service_ok = (bucket \<noteq> JString ''None'');
                  industry_ok = truthy industry_pass;
                  reasons =
                    [if emp_ok then ''employee size ok'' else ''employee size too small'',
                     if rev_ok then ''revenue ok'' else ''revenue too low'',
                     if region_ok then ''region ok'' else ''region outside ICP'',
                     if service_ok then ''service relevant'' else ''service mismatch'',
                     if industry_ok then ''gaming industry match'' else ''not gaming industry''];
                  pass_flag = (emp_ok \<and> rev_ok \<and> region_ok \<and> service_ok \<and> industry_ok)
              in if pass_flag
                 then Inr \<lparr>decision = ''Qualified'',
                          reason = company @ '' matches ICP ('' @ join '', '' reasons @ '').'',
                          confidence = ''95%''\<rparr>
                 else Inr \<lparr>decision = ''Not Qualified'', reason = join '', '' reasons,
                          confidence = ''75%''\<rparr>))"

text \<open>\<open>str(x)\<close> for a score, a float with two decimals of magnitude below \<open>10 ^ 16\<close>.\<close>

definition str_float :: "rat \<Rightarrow> string" where
  "str_float x =
     (let n = round (x * 100);
          a = nat \<bar>n\<bar>;
          fp = a mod 100
      in (if n < 0 then ''-'' else [])
         @ str_int (int (a div 100)) @ ''.''
         @ (if fp mod 10 = 0 then [char_of (48 + fp div 10)]
            else [char_of (48 + fp div 10), char_of (48 + fp mod 10)]))"

text \<open>\<open>int(x)\<close> truncates towards zero.\<close>

definition py_int :: "rat \<Rightarrow> int" where
  "py_int x = (if x < 0 then - \<lfloor>- x\<rfloor> else \<lfloor>x\<rfloor>)"

definition with_score :: "legacy_verdict \<Rightarrow> rat \<Rightarrow> verdict" where
  "with_score l sc =
     \<lparr>decision = decision l, reason = reason l, confidence = confidence l, score = sc\<rparr>"

definition decide ::
  "config \<Rightarrow> string \<Rightarrow> json \<Rightarrow> json \<Rightarrow> json \<Rightarrow> json \<Rightarrow> json \<Rightarrow> json \<Rightarrow> pyerr + verdict" where
  "decide cfg company bucket detailed hq emp revn industry_pass =
     (case legacy_qualify cfg company bucket detailed hq emp revn industry_pass of
        Inl e \<Rightarrow> Inl e
      | Inr legacy \<Rightarrow>
          (case weighted_score cfg emp revn hq bucket industry_pass of
             Inl e \<Rightarrow> Inl e
           | Inr sc \<Rightarrow>
               if decision legacy = ''Qualified'' then Inr (with_score legacy sc)
               else if of_int (SCORE_THRESHOLD cfg) \<le> sc
               then Inr \<lparr>decision = ''Qualified'',
                        reason = company @ '' passes weighted score ('' @ str_float sc @ '' >= ''
                                 @ str_int (SCORE_THRESHOLD cfg) @ '').'',
                        confidence = str_int (py_int sc) @ ''%'',
                        score = sc\<rparr>
               else Inr (with_score legacy sc)))"

subsection \<open>Main processing\<close>

text \<open>
  A row of the input table, its cells already converted by \<open>str\<close>; the URL is absent
  when the table has no such column. The index of a row is its position.
\<close>

record row =
  row_company :: string
  row_title :: string
  row_url :: "string option"

record result = verdict +
  company :: string
  title :: string
  detailed_service :: json
  service_bucket :: json
  hq :: json
  employees :: json
  revenue :: json
  industry_match :: json
  url :: string
  source_index :: nat

text \<open>
  The lines that \<open>process_dataframe\<close> and \<open>run_icp_engine_logic\<close> share for a game role:
  the three lookups, then the decision on their fields.
\<close>

record qualification =
  q_bucket :: json
  q_detailed :: json
  q_hq :: json
  q_employees :: json
  q_revenue :: json
  q_industry :: json
  q_verdict :: verdict

definition bind_err :: "pyerr + 'a \<Rightarrow> ('a \<Rightarrow> pyerr + 'b) \<Rightarrow> pyerr + 'b" where
  "bind_err m f = (case m of Inl e \<Rightarrow> Inl e | Inr v \<Rightarrow> f v)"

definition decide_fields :: "config \<Rightarrow> string \<Rightarrow> json \<Rightarrow> json \<Rightarrow> json \<Rightarrow> pyerr + qualification" where
  "decide_fields cfg c svc info industry_pass =
     bind_err (py_getitem svc ''service_bucket'') (\<lambda>bucket.
     bind_err (py_getitem svc ''detailed_service'') (\<lambda>detailed.
     bind_err (py_getitem info ''hq_country'') (\<lambda>h.
     bind_err (py_getitem info ''employees'') (\<lambda>emp.
     bind_err (py_getitem info ''revenue'') (\<lambda>revn.
     bind_err (decide cfg c bucket detailed h emp revn industry_pass) (\<lambda>dec.
       Inr \<lparr>q_bucket = bucket, q_detailed = detailed, q_hq = h, q_employees = emp,
            q_revenue = revn, q_industry = industry_pass, q_verdict = dec\<rparr>))))))"

definition qualify :: "config \<Rightarrow> string \<Rightarrow> string \<Rightarrow> state \<Rightarrow> (pyerr + qualification) \<times> state" where
  "qualify cfg c t s =
     (case classify_service cfg t s of
        (Inl e, s1) \<Rightarrow> (Inl e, s1)
      | (Inr svc, s1) \<Rightarrow>
          (case get_company_info cfg c s1 of
             (Inl e, s2) \<Rightarrow> (Inl e, s2)
           | (Inr info, s2) \<Rightarrow>
               (case detect_industry cfg c t s2 of
                  (industry_pass, s3) \<Rightarrow> (decide_fields cfg c svc info industry_pass, s3))))"

definition SAVE_EVERY_N :: nat where
  "SAVE_EVERY_N = 50"

text \<open>
  The state of a batch run: the engine's state, the partial table, the checkpoint and the
  final table on disk, and the local variables of \<open>process_dataframe\<close>.
\<close>

record batch =
  engine :: state
  partial_csv :: "result list option"
  checkpoint :: "nat set option"
  output_xlsx :: "result list option"
  processed :: "nat set"
  results :: "result list"
  seen_urls :: "string set"

definition flush_caches :: "state \<Rightarrow> state" where
  "flush_caches s =
     s\<lparr>files := save_json (save_json (save_json (files s)
                   COMPANY_CACHE_FILE (JObject (company_cache s)))
                   INDUSTRY_CACHE_FILE (JObject (industry_cache s)))
                   CLASSIFY_CACHE_FILE (JObject (classify_cache s))\<rparr>"

text \<open>The partial table, the checkpoint and the caches are written.\<close>

definition persist :: "batch \<Rightarrow> batch" where
  "persist b =
     b\<lparr>partial_csv := Some (results b), checkpoint := Some (processed b),
       engine := flush_caches (engine b)\<rparr>"

definition non_game_record :: "string \<Rightarrow> string \<Rightarrow> string \<Rightarrow> nat \<Rightarrow> result" where
  "non_game_record c t u idx =
     \<lparr>decision = ''Not Qualified'', reason = ''Role not related to game development.'',
      confidence = ''100%'', score = 0,
      company = c, title = t, detailed_service = JString ''Non-Game Role'',
      service_bucket = JString ''None'', hq = JString ''Unknown'', employees = JString ''Unknown'',
      revenue = JString ''Unknown'', industry_match = JBool False, url = u, source_index = idx\<rparr>"

definition game_record :: "string \<Rightarrow> string \<Rightarrow> string \<Rightarrow> nat \<Rightarrow> qualification \<Rightarrow> result" where
  "game_record c t u idx q =
     \<lparr>decision = decision (q_verdict q), reason = reason (q_verdict q),
      confidence = confidence (q_verdict q), score = score (q_verdict q),
      company = c, title = t, detailed_service = q_detailed q, service_bucket = q_bucket q,
      hq = q_hq q, employees = q_employees q, revenue = q_revenue q,
      industry_match = q_industry q, url = u, source_index = idx\<rparr>"

text \<open>
  The record of a row that passed the checks on its fields: the fixed record when the
  title is no game role, the record of the qualification otherwise.
\<close>

definition row_record ::
  "config \<Rightarrow> string \<Rightarrow> string \<Rightarrow> string \<Rightarrow> nat \<Rightarrow> state \<Rightarrow> (pyerr + result) \<times> state" where
  "row_record cfg c t u idx s =
     (if \<not> is_game_role t then (Inr (non_game_record c t u idx), s)
      else (case qualify cfg c t s of
              (Inl e, s') \<Rightarrow> (Inl e, s')
            | (Inr q, s') \<Rightarrow> (Inr (game_record c t u idx q), s')))"

text \<open>The URL of a row: \<open>str(row.get("url","")).strip() if "url" in row.index else ""\<close>.\<close>

definition stripped_url :: "row \<Rightarrow> string" where
  "stripped_url r = (case row_url r of Some x \<Rightarrow> strip x | None \<Rightarrow> [])"

text \<open>The body of the loop for the row at index \<open>idx\<close>; an exception of the row is caught.\<close>

definition process_row :: "config \<Rightarrow> nat \<Rightarrow> nat \<Rightarrow> row \<Rightarrow> batch \<Rightarrow> batch" where
  "process_row cfg n_rows idx r b =
     (if idx \<in> processed b then b
      else
        (let c = strip (row_company r);
             t = strip (row_title r);
             u = stripped_url r
         in if t = [] \<or> c = [] then b\<lparr>processed := insert idx (processed b)\<rparr>
            else if u \<noteq> [] \<and> u \<in> seen_urls b then b\<lparr>processed := insert idx (processed b)\<rparr>
            else
              (case row_record cfg c t u idx (engine b) of
                 (Inl e, s) \<Rightarrow> persist (b\<lparr>engine := s\<rparr>)
               | (Inr rec, s) \<Rightarrow>
                   (let b' = b\<lparr>engine := s, results := results b @ [rec],
                               processed := insert idx (processed b),
                               seen_urls := (if u \<noteq> [] then insert u (seen_urls b) else seen_urls b)\<rparr>
                    in if card (processed b') mod SAVE_EVERY_N = 0 \<or> card (processed b') = n_rows
                       then persist b' else b'))))"


text \<open>
  The start of a run from the checkpoint and the partial table on disk, whose records
  are read back as they were written.
\<close>

definition start_batch :: "state \<Rightarrow> result list option \<Rightarrow> nat set option \<Rightarrow> batch" where
  "start_batch s partial ckpt =
     (let rs = (case partial of Some rs \<Rightarrow> rs | None \<Rightarrow> []) in
      \<lparr>engine = s, partial_csv = partial, checkpoint = ckpt, output_xlsx = None,
       processed = (case ckpt of Some p \<Rightarrow> p | None \<Rightarrow> {}) \<union> source_index ` set rs,
       results = rs,
       seen_urls = {u \<in> url ` set rs. u \<noteq> []}\<rparr>)"


subsection \<open>Single-run helper\<close>

definition run_icp_engine_logic ::
  "config \<Rightarrow> string \<Rightarrow> string \<Rightarrow> state \<Rightarrow>
   (pyerr + rat \<times> string \<times> string \<times> json \<times> json \<times> json \<times> json \<times> json \<times> json \<times> string) \<times> state" where
  "run_icp_engine_logic cfg c t s =
     (if \<not> is_game_role t
      then (Inr (0, ''Not Qualified'', ''Role not related to game development.'',
                 JString ''None'', JString ''Non-Game Role'',
                 JString ''Unknown'', JString ''Unknown'', JString ''Unknown'',
                 JBool False, ''100%''), s)
      else (case qualify cfg c t s of
              (Inl e, s') \<Rightarrow> (Inl e, s')
            | (Inr q, s') \<Rightarrow>
                (Inr (score (q_verdict q), decision (q_verdict q), reason (q_verdict q),
                      q_bucket q, q_detailed q, q_hq q, q_employees q, q_revenue q,
                      q_industry q, confidence (q_verdict q)), s')))"

subsection \<open>The URLs of a batch\<close>



subsection \<open>Inputs used below\<close>



definition accountant_row :: row where
  "accountant_row = \<lparr>row_company = ''Acme'', row_title = ''Senior Accountant'', row_url = Some ''http://jobs/7''\<rparr>"



definition oracle_text :: string where
  "oracle_text = ''here's your answer: {'detailed_service': 'Art', 'service_bucket': 'Art'} thanks''"

definition malformed_fs :: fs where
  "malformed_fs = [config_path ''service_mapping'' \<mapsto> Text ''{bad'']"

definition empty_state :: state where
  "empty_state =
     \<lparr>classify_cache = [], company_cache = [], industry_cache = [], files = Map.empty,
      sent = [], calls = []\<rparr>"

text \<open>A classify cache written before the key \<open>engineer\<close> was configured.\<close>

definition stale_state :: state where
  "stale_state =
     empty_state\<lparr>classify_cache := [(''engineer'', service_dict (JString ''Unknown'') (JString ''None''))]\<rparr>"

definition cached_tcs_state :: state where
  "cached_tcs_state = empty_state\<lparr>industry_cache := [(''tcs||game designer'', JBool True)]\<rparr>"


text \<open>Two mappings with the keys \<open>engineer\<close> and \<open>engine programmer\<close>: with different
  values, and with a string as the value of the longer key.\<close>

definition two_key_config :: config where
  "two_key_config = (default_config None)\<lparr>SERVICE_MAPPING :=
     [(''engineer'', pair2 ''Programming'' ''Co-Dev''),
      (''engine programmer'', pair2 ''Engine Programming'' ''Co-Dev'')]\<rparr>"

definition string_value_config :: config where
  "string_value_config = (default_config None)\<lparr>SERVICE_MAPPING :=
     [(''engineer'', pair2 ''Programming'' ''Co-Dev''),
      (''engine programmer'', JString ''Engine Programming'')]\<rparr>"

section \<open>Properties\<close>

subsection \<open>JSON repair\<close>

lemma oracle_text_direct: "json_loads oracle_text = Inl JSONDecodeError"
  unfolding oracle_text_def by code_simp

lemma oracle_text_braces:
  "search_braces oracle_text = Some ''{'detailed_service': 'Art', 'service_bucket': 'Art'}''"
  unfolding oracle_text_def by code_simp

lemma oracle_text_braces_parse:
  "json_loads ''{'detailed_service': 'Art', 'service_bucket': 'Art'}'' = Inl JSONDecodeError"
  by code_simp

lemma oracle_text_fixed:
  "json_loads (strip (replace '', ]'' '']'' (replace '',}'' ''}''
     (replace [newline] '' '' (replace [squote] [dquote] oracle_text))))) = Inl JSONDecodeError"
  unfolding oracle_text_def by code_simp

lemma oracle_text_nonempty: "oracle_text \<noteq> []"
  unfolding oracle_text_def by simp

text \<open>
  The substitution of the third step is what the brace-delimited substring needs: on that
  substring alone the repair gives the mapping.
\<close>

lemma repair_json_extracted:
  "repair_json (search_braces oracle_text) = Some (service_dict (JString ''Art'') (JString ''Art''))"
  unfolding oracle_text_def by code_simp

text \<open>
  C3. The repair of the text
  \<open>here's your answer: {'detailed_service': 'Art', 'service_bucket': 'Art'} thanks\<close>
  should give the mapping of \<open>detailed_service\<close> and \<open>service_bucket\<close> to \<open>Art\<close>. In the
  code all three steps fail and the result is \<open>None\<close>: the direct parse fails on the
  prose, the brace-delimited substring has single quotes, and the substitution of the
  third step is applied to the whole text, prose included, not to that substring.
\<close>

theorem repair_json_quoted_prose: "repair_json (Some oracle_text) = None"
  by (simp add: repair_json_def oracle_text_nonempty oracle_text_direct oracle_text_braces
      oracle_text_braces_parse oracle_text_fixed)

subsection \<open>Config loader\<close>

lemma load_json_returns: "\<exists>v. load_json fs path = Inr v"
  by (simp add: load_json_def split: option.splits sum.splits)

lemma malformed_text: "json_loads ''{bad'' = Inl JSONDecodeError"
  by code_simp

text \<open>Whatever the malformed text and the default are, the loader returns the empty dict
  and leaves the files as they are.\<close>

lemma load_config_malformed_empty:
  "fs (config_path name) = Some (Text t) \<Longrightarrow> json_loads t = Inl e \<Longrightarrow>
   load_config fs name dflt = (JObject [], fs)"
  by (simp add: load_config_def load_json_def)

text \<open>
  C4. With a malformed config file on disk the loader should return the default
  mapping, leave the file as it is and raise nothing. In the code \<open>load_json\<close> catches
  the decoding error itself and returns the empty dict, so the handler of the loader
  that returns the default is never reached: for the file \<open>config/service_mapping.json\<close>
  with the text \<open>{bad\<close> and the default service mapping, the loader returns the empty
  dict, not the default. The file is left as it is.
\<close>

theorem load_config_malformed:
  "load_config malformed_fs ''service_mapping'' (JObject DEFAULT_SERVICE_MAPPING)
     = (JObject [], malformed_fs)"
  by (simp add: load_config_def load_json_def malformed_fs_def malformed_text)

subsection \<open>The service classifier\<close>

lemma dict_get_keys: "k \<in> set (dict_keys m) \<Longrightarrow> \<exists>v. dict_get m k = Some v"
  by (induction m) (auto simp: dict_keys_def dict_get_def)

lemma dict_get_in_keys: "dict_get m k = Some v \<Longrightarrow> k \<in> set (dict_keys m)"
  unfolding dict_keys_def dict_get_def by (metis map_of_SomeD fst_conv image_eqI set_map)

lemma rule_scan_hit:
  "k \<in> set keys \<Longrightarrow> contains k t \<Longrightarrow> dict_get m k = Some v \<Longrightarrow> rule_value v \<noteq> None \<Longrightarrow>
   rule_scan m t keys \<noteq> None"
  by (induction keys) (auto split: option.splits)

lemma rule_scan_source:
  "rule_scan m t keys = Some r \<Longrightarrow>
   \<exists>k \<in> set keys. \<exists>v. contains k t \<and> dict_get m k = Some v \<and> rule_value v = Some r"
  by (induction keys) (auto split: option.splits if_splits)

lemma rule_value_usable: "rule_value v \<noteq> None \<longleftrightarrow> usable_value v"
proof (cases v)
  case (JArray xs)
  then show ?thesis
  proof (cases xs)
    case Nil
    with JArray show ?thesis by (simp add: usable_value_def)
  next
    case (Cons a ys)
    with JArray show ?thesis by (cases ys) (simp_all add: usable_value_def)
  qed
qed (simp_all add: usable_value_def)

lemma rule_scan_longest_usable:
  "kl \<in> set keys \<Longrightarrow> contains kl t \<Longrightarrow> dict_get m kl = Some v \<Longrightarrow> rule_value v = Some r \<Longrightarrow>
   sorted (map (\<lambda>x. - int (length x)) keys) \<Longrightarrow>
   (\<forall>k \<in> set keys. \<forall>v'. contains k t \<and> k \<noteq> kl \<and> dict_get m k = Some v' \<and> usable_value v'
        \<longrightarrow> length k < length kl) \<Longrightarrow>
   rule_scan m t keys = Some r"
proof (induction keys)
  case Nil
  then show ?case by simp
next
  case (Cons key keys)
  show ?case
  proof (cases "key = kl")
    case True
    with Cons.prems show ?thesis by simp
  next
    case False
    with Cons.prems have in_rest: "kl \<in> set keys" by simp
    from Cons.prems(5) in_rest have len: "length kl \<le> length key" by auto
    have rest: "rule_scan m t keys = Some r"
      using Cons.IH in_rest Cons.prems by simp
    have skip: "rule_scan m t (key # keys) = rule_scan m t keys"
    proof (cases "contains key t")
      case nc: False
      then show ?thesis by simp
    next
      case c: True
      show ?thesis
      proof (cases "dict_get m key")
        case None
        with c show ?thesis by simp
      next
        case (Some v')
        have "\<not> usable_value v'"
        proof
          assume "usable_value v'"
          with Cons.prems(6) c False Some have "length key < length kl" by auto
          with len show False by simp
        qed
        then have "rule_value v' = None" using rule_value_usable by blast
        with c Some show ?thesis by simp
      qed
    qed
    with rest show ?thesis by simp
  qed
qed

text \<open>
  C8, as amended. A key whose value is no mapping value (a list of at least two elements
  or a dict) is passed over. When several configured keys occur in the normalized title,
  the rule classifier returns the mapping of the longest one among those with a mapping
  value: if a key occurs in the normalized title and every other key that occurs and has
  a mapping value is shorter, the result is made of the first two elements of the key's
  list, or of the entries of its dict. The witness is the claim's case, with different
  values for the two keys: \<open>engineer\<close> and \<open>engine programmer\<close> both occur, and the
  result is the mapping of \<open>engine programmer\<close>.
\<close>

theorem classify_service_rule_longest_usable:
  assumes "kl \<in> set (dict_keys (SERVICE_MAPPING cfg))"
    and "contains kl (normalize_title t)"
    and "dict_get (SERVICE_MAPPING cfg) kl = Some v"
    and "\<forall>k \<in> set (dict_keys (SERVICE_MAPPING cfg)). \<forall>v'.
           contains k (normalize_title t) \<and> k \<noteq> kl
           \<and> dict_get (SERVICE_MAPPING cfg) k = Some v' \<and> usable_value v'
           \<longrightarrow> length k < length kl"
  shows "(\<forall>a b more. v = JArray (a # b # more) \<longrightarrow>
            classify_service_rule cfg t
              = Some (JObject [(''detailed_service'', a), (''service_bucket'', b)]))
       \<and> (\<forall>d. v = JObject d \<longrightarrow>
            classify_service_rule cfg t
              = Some (JObject
                  [(''detailed_service'',
                    case dict_get d ''detailed_service'' of Some x \<Rightarrow> x | None \<Rightarrow> JString ''Unknown''),
                   (''service_bucket'',
                    case dict_get d ''service_bucket'' of Some x \<Rightarrow> x | None \<Rightarrow> JString ''None'')]))"
proof -
  have scan: "classify_service_rule cfg t = Some r" if "rule_value v = Some r" for r
    unfolding classify_service_rule_def
    by (rule rule_scan_longest_usable[where kl = kl and v = v]) (use assms that in auto)
  show ?thesis
    using scan by (auto simp: service_dict_def)
qed

theorem classify_service_rule_longest_usable_witness:
  "''engineer'' \<in> set (dict_keys (SERVICE_MAPPING two_key_config))
   \<and> contains ''engineer'' (normalize_title ''Engineer / Engine Programmer'')
   \<and> ''engine programmer'' \<in> set (dict_keys (SERVICE_MAPPING two_key_config))
   \<and> contains ''engine programmer'' (normalize_title ''Engineer / Engine Programmer'')
   \<and> classify_service_rule two_key_config ''Engineer / Engine Programmer''
        = Some (JObject [(''detailed_service'', JString ''Engine Programming''),
                         (''service_bucket'', JString ''Co-Dev'')])"
proof -
  let ?cfg = two_key_config and ?t = "''Engineer / Engine Programmer''"
  have h1: "''engine programmer'' \<in> set (dict_keys (SERVICE_MAPPING ?cfg))" by code_simp
  have h2: "contains ''engine programmer'' (normalize_title ?t)" by code_simp
  have h3: "dict_get (SERVICE_MAPPING ?cfg) ''engine programmer''
      = Some (JArray (JString ''Engine Programming'' # JString ''Co-Dev'' # []))"
    by code_simp
  have h4: "\<forall>k \<in> set (dict_keys (SERVICE_MAPPING ?cfg)). \<forall>v'.
           contains k (normalize_title ?t) \<and> k \<noteq> ''engine programmer''
           \<and> dict_get (SERVICE_MAPPING ?cfg) k = Some v' \<and> usable_value v'
           \<longrightarrow> length k < length ''engine programmer''"
    by (simp add: two_key_config_def dict_keys_def)
  have e1: "''engineer'' \<in> set (dict_keys (SERVICE_MAPPING ?cfg))" by code_simp
  have e2: "contains ''engineer'' (normalize_title ?t)" by code_simp
  from classify_service_rule_longest_usable[OF h1 h2 h3 h4] h1 h2 e1 e2 show ?thesis by simp
qed

text \<open>
  C8 as stated fails when the value of the longest key is no mapping value: with a
  string as the value of \<open>engine programmer\<close>, the result is the mapping of
  \<open>engineer\<close>.
\<close>

theorem classify_service_rule_string_value:
  "''engineer'' \<in> set (dict_keys (SERVICE_MAPPING string_value_config))
   \<and> contains ''engineer'' (normalize_title ''Engineer / Engine Programmer'')
   \<and> ''engine programmer'' \<in> set (dict_keys (SERVICE_MAPPING string_value_config))
   \<and> contains ''engine programmer'' (normalize_title ''Engineer / Engine Programmer'')
   \<and> dict_get (SERVICE_MAPPING string_value_config) ''engine programmer'' = Some (JString ''Engine Programming'')
   \<and> classify_service_rule string_value_config ''Engineer / Engine Programmer''
        = Some (JObject [(''detailed_service'', JString ''Programming''),
                         (''service_bucket'', JString ''Co-Dev'')])"
  by code_simp


lemma classify_service_no_oracle:
  assumes "classify_service_rule cfg t = Some r"
  shows "fst (classify_service cfg t s) =
           Inr (case dict_get (classify_cache s) (normalize_title t) of Some c \<Rightarrow> c | None \<Rightarrow> r)
         \<and> sent (snd (classify_service cfg t s)) = sent s"
  using assms by (simp add: classify_service_def Let_def split: option.splits)

text \<open>
  C1, as amended. The classify cache is consulted first, the rule table only when the
  cache has no entry for the normalized title. For a title whose normalized form
  contains a configured key with a mapping value, \<open>classify_service\<close> returns the
  cached entry if there is one, and otherwise the mapping of a configured key that
  occurs in the normalized title; in both cases no request is sent to the oracle,
  whatever the client is.
\<close>

theorem classify_service_rule_path:
  assumes "k \<in> set (dict_keys (SERVICE_MAPPING cfg))"
    and "contains k (normalize_title t)"
    and "\<forall>v. dict_get (SERVICE_MAPPING cfg) k = Some v \<longrightarrow> rule_value v \<noteq> None"
  shows "\<exists>k' v r. dict_get (SERVICE_MAPPING cfg) k' = Some v \<and> contains k' (normalize_title t)
           \<and> rule_value v = Some r
           \<and> fst (classify_service cfg t s) =
               Inr (case dict_get (classify_cache s) (normalize_title t) of Some c \<Rightarrow> c | None \<Rightarrow> r)
           \<and> sent (snd (classify_service cfg t s)) = sent s"
proof -
  obtain v where v: "dict_get (SERVICE_MAPPING cfg) k = Some v"
    using dict_get_keys[OF assms(1)] by blast
  with assms(3) have "rule_value v \<noteq> None" by simp
  with assms(1,2) v have "classify_service_rule cfg t \<noteq> None"
    unfolding classify_service_rule_def by (intro rule_scan_hit[where k = k and v = v]) auto
  then obtain r where r: "classify_service_rule cfg t = Some r" by blast
  then obtain k' v' where "dict_get (SERVICE_MAPPING cfg) k' = Some v'"
    "contains k' (normalize_title t)" "rule_value v' = Some r"
    unfolding classify_service_rule_def using rule_scan_source by blast
  with classify_service_no_oracle[OF r, of s] show ?thesis by blast
qed


theorem classify_service_rule_path_witness:
  "''engineer'' \<in> set (dict_keys (SERVICE_MAPPING (default_config None)))
   \<and> contains ''engineer'' (normalize_title ''Senior Engineer'')
   \<and> fst (classify_service (default_config None) ''Senior Engineer'' empty_state)
       = Inr (service_dict (JString ''Programming'') (JString ''Co-Dev''))
   \<and> sent (snd (classify_service (default_config None) ''Senior Engineer'' empty_state)) = []"
proof -
  have h1: "''engineer'' \<in> set (dict_keys (SERVICE_MAPPING (default_config None)))"
    by code_simp
  have h2: "contains ''engineer'' (normalize_title ''Senior Engineer'')"
    by code_simp
  have h3: "\<forall>v. dict_get (SERVICE_MAPPING (default_config None)) ''engineer'' = Some v \<longrightarrow> rule_value v \<noteq> None"
    by (simp add: default_config_def DEFAULT_SERVICE_MAPPING_def dict_get_def pair2_def)
  have sent0: "sent empty_state = []"
    by (simp add: empty_state_def)
  have res: "fst (classify_service (default_config None) ''Senior Engineer'' empty_state)
       = Inr (service_dict (JString ''Programming'') (JString ''Co-Dev''))"
    by code_simp
  from classify_service_rule_path[OF h1 h2 h3, of empty_state] h1 h2 res sent0
  show ?thesis by auto
qed

text \<open>
  C1 as stated fails: with a cached entry for the normalized title, the cached entry is
  returned, not the mapping of the key \<open>engineer\<close> that the title contains.
\<close>

theorem classify_service_cache_first:
  "contains ''engineer'' (normalize_title ''Senior Engineer'')
   \<and> dict_get (SERVICE_MAPPING (default_config None)) ''engineer'' = Some (pair2 ''Programming'' ''Co-Dev'')
   \<and> classify_service_rule (default_config None) ''Senior Engineer''
        = Some (service_dict (JString ''Programming'') (JString ''Co-Dev''))
   \<and> fst (classify_service (default_config None) ''Senior Engineer'' stale_state)
        = Inr (service_dict (JString ''Unknown'') (JString ''None''))"
  by code_simp


subsection \<open>The industry detector\<close>

lemma groq_attempts_sent:
  "sent s1 = sent s2 \<Longrightarrow>
   fst (groq_attempts svc k p s1) = fst (groq_attempts svc k p s2)
   \<and> sent (snd (groq_attempts svc k p s1)) = sent (snd (groq_attempts svc k p s2))"
proof (induction k arbitrary: s1 s2)
  case 0
  then show ?case by simp
next
  case (Suc k)
  have "sent (s1\<lparr>sent := sent s1 @ [p]\<rparr>) = sent (s2\<lparr>sent := sent s2 @ [p]\<rparr>)"
    using Suc.prems by simp
  from Suc.IH[OF this] Suc.prems show ?case
    by (simp add: Let_def split: option.splits)
qed

lemma rate_limited_groq_calls:
  "fst (rate_limited_groq cfg p (s\<lparr>calls := x\<rparr>)) = fst (rate_limited_groq cfg p s)"
  using groq_attempts_sent[of "s\<lparr>calls := x\<rparr>" s]
  by (simp add: rate_limited_groq_def split: option.splits)

lemma sent_put_industry: "sent (put_industry key b s) = sent s"
  by (simp add: put_industry_def Let_def)

lemma list_ex_remdups: "list_ex P (remdups xs) = list_ex P xs"
  by (simp add: list_ex_iff)

text \<open>
  C2, as amended. The cache is consulted first: a cached entry for the key of company
  and title is returned as it is. Only without a cached entry the branches follow in the
  order forced-exclusion list (false), trusted game companies and name tokens (true),
  oracle (true if the answer contains \<open>yes\<close>); the first three send no request to the
  oracle.
\<close>

theorem detect_industry_order:
  "(\<forall>v. dict_get (industry_cache s) (industry_key c t) = Some v \<longrightarrow>
       fst (detect_industry cfg c t s) = v \<and> sent (snd (detect_industry cfg c t s)) = sent s)
   \<and> (dict_get (industry_cache s) (industry_key c t) = None \<longrightarrow>
        (strip (lower c) \<in> set (forced_non_gaming cfg) \<longrightarrow>
           fst (detect_industry cfg c t s) = JBool False \<and> sent (snd (detect_industry cfg c t s)) = sent s)
      \<and> (strip (lower c) \<notin> set (forced_non_gaming cfg)
           \<and> ((\<exists>name \<in> set (trusted_game_companies cfg). contains name (strip (lower c)))
               \<or> (\<exists>k \<in> set name_tokens. contains k (strip (lower c)))) \<longrightarrow>
           fst (detect_industry cfg c t s) = JBool True \<and> sent (snd (detect_industry cfg c t s)) = sent s)
      \<and> (strip (lower c) \<notin> set (forced_non_gaming cfg)
           \<and> \<not> (\<exists>name \<in> set (trusted_game_companies cfg). contains name (strip (lower c)))
           \<and> \<not> (\<exists>k \<in> set name_tokens. contains k (strip (lower c))) \<longrightarrow>
           fst (detect_industry cfg c t s) =
             JBool (case fst (rate_limited_groq cfg (industry_prompt c) s) of
                      None \<Rightarrow> False | Some out \<Rightarrow> contains ''yes'' (lower out))))"
  by (auto simp: detect_industry_def Let_def sent_put_industry list_ex_remdups list_ex_iff
      rate_limited_groq_calls case_prod_beta lower_def split: option.splits)


theorem detect_industry_order_witness:
  "dict_get (industry_cache empty_state) (industry_key ''TCS'' ''Game Designer'') = None
   \<and> strip (lower ''TCS'') \<in> set (forced_non_gaming (default_config None))
   \<and> fst (detect_industry (default_config None) ''TCS'' ''Game Designer'' empty_state) = JBool False
   \<and> sent (snd (detect_industry (default_config None) ''TCS'' ''Game Designer'' empty_state))
       = sent empty_state"
proof -
  have h1: "dict_get (industry_cache empty_state) (industry_key ''TCS'' ''Game Designer'') = None"
    by code_simp
  have h2: "strip (lower ''TCS'') \<in> set (forced_non_gaming (default_config None))"
    by code_simp
  from detect_industry_order[where s = empty_state and c = "''TCS''" and t = "''Game Designer''"
      and cfg = "default_config None"] h1 h2
  show ?thesis by blast
qed

text \<open>
  C2 as stated fails: for a company on the forced-exclusion list, a cached entry for
  the key of company and title is returned, here true.
\<close>

theorem detect_industry_cached_forced:
  "strip (lower ''TCS'') \<in> set (forced_non_gaming (default_config None))
   \<and> fst (detect_industry (default_config None) ''TCS'' ''Game Designer'' cached_tcs_state) = JBool True"
  by code_simp

subsection \<open>Scoring\<close>






lemma score_region_string:
  "score_region cfg (JString h) =
     Inr (if list_ex (\<lambda>r. contains r (lower h)) (GOOD_REGIONS cfg) \<and> h \<noteq> [] then 100 else 0)"
  by (simp add: score_region_def)











lemma legacy_region_string:
  "legacy_region cfg (JString h) = Inr (list_ex (\<lambda>r. contains r (lower h)) (GOOD_REGIONS cfg))"
  by (simp add: legacy_region_def lower_def)







text \<open>
  C10, as amended. There is a country string that is no configured good region for
  which \<open>score_region\<close> gives 100 and the region criterion of the legacy gate passes:
  \<open>Ukraine\<close>, which contains the good region \<open>uk\<close>. The reason is that the region
  matches when some good region occurs in the lowercased country name.
\<close>

theorem score_region_substring:
  "(\<exists>h. h \<notin> set (GOOD_REGIONS (default_config cl)) \<and> lower h \<notin> set (GOOD_REGIONS (default_config cl))
        \<and> score_region (default_config cl) (JString h) = Inr 100
        \<and> legacy_region (default_config cl) (JString h) = Inr True)
   \<and> score_region cfg (JString h') =
       Inr (if h' \<noteq> [] \<and> (\<exists>r \<in> set (GOOD_REGIONS cfg). contains r (lower h')) then 100 else 0)
   \<and> legacy_region cfg (JString h') = Inr (\<exists>r \<in> set (GOOD_REGIONS cfg). contains r (lower h'))"
proof -
  have g: "GOOD_REGIONS (default_config cl) = map lower DEFAULT_REGION_KEYS"
    by (simp add: default_config_def)
  have 1: "''Ukraine'' \<notin> set (map lower DEFAULT_REGION_KEYS)" by code_simp
  have 2: "lower ''Ukraine'' \<notin> set (map lower DEFAULT_REGION_KEYS)" by code_simp
  have 3: "list_ex (\<lambda>r. contains r (lower ''Ukraine'')) (map lower DEFAULT_REGION_KEYS)" by code_simp
  have "score_region (default_config cl) (JString ''Ukraine'') = Inr 100"
    using 3 by (simp add: score_region_string g)
  moreover have "legacy_region (default_config cl) (JString ''Ukraine'') = Inr True"
    using 3 by (simp add: legacy_region_string g)
  ultimately have ex: "\<exists>h. h \<notin> set (GOOD_REGIONS (default_config cl)) \<and> lower h \<notin> set (GOOD_REGIONS (default_config cl))
        \<and> score_region (default_config cl) (JString h) = Inr 100
        \<and> legacy_region (default_config cl) (JString h) = Inr True"
    using 1 2 g by metis
  show ?thesis
    using ex by (auto simp: score_region_string legacy_region_string list_ex_iff)
qed

text \<open>
  C10 as stated fails on its examples: the default good regions are the keys of the
  region mapping, \<open>us\<close> is not among them, and \<open>Belarus\<close> and \<open>Russia\<close> contain none
  of them.
\<close>

theorem score_region_belarus_russia:
  "score_region (default_config None) (JString ''Belarus'') = Inr 0
   \<and> score_region (default_config None) (JString ''Russia'') = Inr 0
   \<and> legacy_region (default_config None) (JString ''Belarus'') = Inr False
   \<and> legacy_region (default_config None) (JString ''Russia'') = Inr False
   \<and> ''us'' \<notin> set (GOOD_REGIONS (default_config None))"
  by code_simp

subsection \<open>The gate on the role\<close>

lemma flush_caches_log: "sent (flush_caches s) = sent s" "calls (flush_caches s) = calls s"
  by (simp_all add: flush_caches_def)

lemma persist_fields:
  "results (persist b) = results b" "processed (persist b) = processed b"
  "seen_urls (persist b) = seen_urls b" "sent (engine (persist b)) = sent (engine b)"
  "calls (engine (persist b)) = calls (engine b)"
  by (simp_all add: persist_def flush_caches_log)

lemma non_game_record_fields:
  "decision (non_game_record c t u idx) = ''Not Qualified''"
  "score (non_game_record c t u idx) = 0"
  "service_bucket (non_game_record c t u idx) = JString ''None''"
  "source_index (non_game_record c t u idx) = idx"
  "url (non_game_record c t u idx) = u"
  by (simp_all add: non_game_record_def)

lemma process_row_non_game:
  assumes "\<not> is_game_role (strip (row_title r))"
  shows "sent (engine (process_row cfg n idx r b)) = sent (engine b)"
    and "calls (engine (process_row cfg n idx r b)) = calls (engine b)"
    and "results (process_row cfg n idx r b) = results b
         \<or> results (process_row cfg n idx r b)
            = results b @ [non_game_record (strip (row_company r)) (strip (row_title r)) (stripped_url r) idx]"
    and "idx \<notin> processed b \<and> strip (row_title r) \<noteq> [] \<and> strip (row_company r) \<noteq> []
         \<and> (stripped_url r = [] \<or> stripped_url r \<notin> seen_urls b) \<longrightarrow>
         results (process_row cfg n idx r b)
            = results b @ [non_game_record (strip (row_company r)) (strip (row_title r)) (stripped_url r) idx]"
  using assms
  by (auto simp: process_row_def row_record_def Let_def persist_fields)

text \<open>
  C6. For a title that is no game role, the single-run helper returns the decision
  Not Qualified, score 0 and service bucket None and leaves the state as it is. In the
  batch processor, the loop body for a row with such a title sends no request to the
  oracle and calls neither the service classifier, the company enricher nor the
  industry detector; the record it appends, if any, has the decision Not Qualified,
  score 0 and service bucket None; and it appends one when the row reaches the gate
  (index not yet processed, title and company not empty, URL not seen).
\<close>

theorem gate_short_circuit:
  "(\<not> is_game_role t \<longrightarrow>
      run_icp_engine_logic cfg c t s =
        (Inr (0, ''Not Qualified'', ''Role not related to game development.'',
              JString ''None'', JString ''Non-Game Role'',
              JString ''Unknown'', JString ''Unknown'', JString ''Unknown'',
              JBool False, ''100%''), s))
   \<and> (\<not> is_game_role (strip (row_title r)) \<longrightarrow>
        sent (engine (process_row cfg n idx r b)) = sent (engine b)
      \<and> calls (engine (process_row cfg n idx r b)) = calls (engine b)
      \<and> (results (process_row cfg n idx r b) = results b
         \<or> (\<exists>rec. results (process_row cfg n idx r b) = results b @ [rec]
               \<and> decision rec = ''Not Qualified'' \<and> score rec = 0
               \<and> service_bucket rec = JString ''None'' \<and> source_index rec = idx))
      \<and> (idx \<notin> processed b \<and> strip (row_title r) \<noteq> [] \<and> strip (row_company r) \<noteq> []
           \<and> (stripped_url r = [] \<or> stripped_url r \<notin> seen_urls b) \<longrightarrow>
           (\<exists>rec. results (process_row cfg n idx r b) = results b @ [rec]
               \<and> decision rec = ''Not Qualified'' \<and> score rec = 0
               \<and> service_bucket rec = JString ''None'' \<and> source_index rec = idx)))"
proof (intro conjI impI)
  assume "\<not> is_game_role t"
  then show "run_icp_engine_logic cfg c t s =
        (Inr (0, ''Not Qualified'', ''Role not related to game development.'',
              JString ''None'', JString ''Non-Game Role'',
              JString ''Unknown'', JString ''Unknown'', JString ''Unknown'',
              JBool False, ''100%''), s)"
    by (simp add: run_icp_engine_logic_def)
next
  assume g: "\<not> is_game_role (strip (row_title r))"
  show "sent (engine (process_row cfg n idx r b)) = sent (engine b)"
    by (rule process_row_non_game(1)[OF g])
  show "calls (engine (process_row cfg n idx r b)) = calls (engine b)"
    by (rule process_row_non_game(2)[OF g])
  show "results (process_row cfg n idx r b) = results b
         \<or> (\<exists>rec. results (process_row cfg n idx r b) = results b @ [rec]
               \<and> decision rec = ''Not Qualified'' \<and> score rec = 0
               \<and> service_bucket rec = JString ''None'' \<and> source_index rec = idx)"
    using process_row_non_game(3)[OF g, of cfg n idx b] non_game_record_fields by metis
  assume "idx \<notin> processed b \<and> strip (row_title r) \<noteq> [] \<and> strip (row_company r) \<noteq> []
           \<and> (stripped_url r = [] \<or> stripped_url r \<notin> seen_urls b)"
  with process_row_non_game(4)[OF g, of idx b cfg n]
  show "\<exists>rec. results (process_row cfg n idx r b) = results b @ [rec]
               \<and> decision rec = ''Not Qualified'' \<and> score rec = 0
               \<and> service_bucket rec = JString ''None'' \<and> source_index rec = idx"
    using non_game_record_fields by metis
qed


theorem gate_short_circuit_witness:
  "\<not> is_game_role ''Senior Accountant''
   \<and> run_icp_engine_logic (default_config None) ''Acme'' ''Senior Accountant'' empty_state =
        (Inr (0, ''Not Qualified'', ''Role not related to game development.'',
              JString ''None'', JString ''Non-Game Role'',
              JString ''Unknown'', JString ''Unknown'', JString ''Unknown'',
              JBool False, ''100%''), empty_state)
   \<and> sent (engine (process_row (default_config None) 1 0 accountant_row
                     (start_batch empty_state None None))) = []
   \<and> calls (engine (process_row (default_config None) 1 0 accountant_row
                     (start_batch empty_state None None))) = []
   \<and> (\<exists>rec. results (process_row (default_config None) 1 0 accountant_row
                        (start_batch empty_state None None)) = [rec]
          \<and> decision rec = ''Not Qualified'' \<and> score rec = 0
          \<and> service_bucket rec = JString ''None'' \<and> source_index rec = 0)"
proof -
  let ?b = "start_batch empty_state None None"
  have g: "\<not> is_game_role ''Senior Accountant''" by code_simp
  have g': "\<not> is_game_role (strip (row_title accountant_row))" by code_simp
  have b: "sent (engine ?b) = []" "calls (engine ?b) = []" "results ?b = []"
    by (simp_all add: start_batch_def empty_state_def)
  have h: "0 \<notin> processed ?b \<and> strip (row_title accountant_row) \<noteq> []
           \<and> strip (row_company accountant_row) \<noteq> []
           \<and> (stripped_url accountant_row = [] \<or> stripped_url accountant_row \<notin> seen_urls ?b)"
    by code_simp
  from gate_short_circuit[of "''Senior Accountant''" "default_config None" "''Acme''" empty_state
      accountant_row 1 0 ?b] g g' h b
  show ?thesis by simp
qed


subsection \<open>Duplicate URLs\<close>























end
